theory Spec2Isabelle
  imports Main "HOL-Library.AList"
begin

section \<open>The real-time event channel of \<^verbatim>\<open>services/websocket.ts\<close>\<close>

text \<open>
  The development embeds the class \<^verbatim>\<open>WebSocketService\<close> (file
  \<^verbatim>\<open>frontend/src/services/websocket.ts\<close>).  The object's fields, the browser's
  sockets and pending timeouts, and the log of emitted events form one explicit state;
  every method and every callback the class installs is a function on that state.

  Three platform primitives are used by the class and are not part of the repository;
  they are modelled here and the modelling choices are stated where they are made:
  \<^item> \<^verbatim>\<open>JSON.stringify\<close> and \<^verbatim>\<open>JSON.parse\<close> (section "JSON");
  \<^item> \<^verbatim>\<open>WebSocket\<close>, \<^verbatim>\<open>setTimeout\<close> and \<^verbatim>\<open>clearTimeout\<close> (section "Browser state");
  \<^item> the base class \<^verbatim>\<open>EventEmitter\<close> of package \<^verbatim>\<open>events\<close>: a call of \<^verbatim>\<open>emit\<close> is
    recorded in a log and raises for an \<open>error\<close> event that has no listener (section
    "Browser state"); the order in which listeners are invoked is modelled from the
    specification (section "Subscriber Registry").  What the listeners themselves do
    when they are invoked is outside the model.
\<close>

subsection \<open>JavaScript values\<close>

text \<open>
  The payload of a message has type \<^verbatim>\<open>any\<close>.  Values are the JSON values together with
  \<^verbatim>\<open>undefined\<close>.  Numbers are integers (floating point is outside the model); a string
  is a list of 8-bit code units; an object is the list of its own properties in
  enumeration order.
\<close>

datatype jsval =
    Undefined
  | Null
  | Bool bool
  | Num int
  | Str string
  | Arr "jsval list"
  | Obj "(string \<times> jsval) list"

text \<open>
  Reading a property: \<^verbatim>\<open>null\<close> and \<^verbatim>\<open>undefined\<close> raise a \<^verbatim>\<open>TypeError\<close>; an
  object yields the property or \<^verbatim>\<open>undefined\<close>.  The only names read by the class
  are \<^verbatim>\<open>type\<close> and \<^verbatim>\<open>payload\<close>, which no primitive wrapper or array prototype
  defines, so every other value yields \<^verbatim>\<open>undefined\<close>.
\<close>

text \<open>
  The arguments of an emission: a decoded value, an \<^verbatim>\<open>Error\<close> object with its message,
  the DOM event handed to \<^verbatim>\<open>onerror\<close> (tagged with the socket it came from), or the
  exception thrown by the \<^verbatim>\<open>WebSocket\<close> constructor.
\<close>

datatype arg = Val jsval | Err string | ErrorEvent nat | Thrown

text \<open>
  The exceptions: the two of the language that the class can meet, and the one the base
  class \<^verbatim>\<open>EventEmitter\<close> raises when an \<open>error\<close> event is emitted and no listener is
  registered for it (the argument itself when it is an \<^verbatim>\<open>Error\<close>, an \<^verbatim>\<open>Error\<close>
  wrapping it otherwise; \<open>Unhandled\<close> carries the arguments of the emission).
  \<open>OutsideModel\<close> is not an exception: see the section on parsing.
\<close>

datatype exn = TypeError | SyntaxError | Unhandled "arg list" | OutsideModel

fun get_prop :: "jsval \<Rightarrow> string \<Rightarrow> exn + jsval" where
  "get_prop Undefined k = Inl TypeError"
| "get_prop Null k = Inl TypeError"
| "get_prop (Obj ms) k = Inr (case map_of ms k of None \<Rightarrow> Undefined | Some v \<Rightarrow> v)"
| "get_prop v k = Inr Undefined"

subsection \<open>JSON: serialisation\<close>

text \<open>
  \<^verbatim>\<open>JSON.stringify\<close> (ECMA-262, SerializeJSONProperty): no white space is produced; a
  property whose value is \<^verbatim>\<open>undefined\<close> is skipped in an object; \<^verbatim>\<open>undefined\<close> in
  an array is written \<^verbatim>\<open>null\<close>; at top level \<^verbatim>\<open>undefined\<close> yields no text.
\<close>

definition dq :: char where
  "dq = CHR 0x22"

definition bs :: char where
  "bs = CHR 0x5C"

definition digit_char :: "nat \<Rightarrow> char" where
  "digit_char n = char_of (48 + n)"

definition hex_char :: "nat \<Rightarrow> char" where
  "hex_char n = (if n < 10 then char_of (48 + n) else char_of (87 + n))"

fun show_nat :: "nat \<Rightarrow> string" where
  "show_nat n = (if n < 10 then [digit_char n] else show_nat (n div 10) @ [digit_char (n mod 10)])"

declare show_nat.simps [simp del]

definition show_int :: "int \<Rightarrow> string" where
  "show_int i = (if i < 0 then CHR ''-'' # show_nat (nat (- i)) else show_nat (nat i))"

text \<open>QuoteJSONString: the escapes of one code unit.\<close>

definition quote_char :: "char \<Rightarrow> string" where
  "quote_char c =
     (if c = dq then [bs, dq]
      else if c = bs then [bs, bs]
      else if c = CHR 0x08 then [bs, CHR ''b'']
      else if c = CHR 0x09 then [bs, CHR ''t'']
      else if c = CHR 0x0A then [bs, CHR ''n'']
      else if c = CHR 0x0C then [bs, CHR ''f'']
      else if c = CHR 0x0D then [bs, CHR ''r'']
      else if (of_char c :: nat) < 32
        then [bs, CHR ''u'', CHR ''0'', CHR ''0'',
              hex_char ((of_char c :: nat) div 16), hex_char ((of_char c :: nat) mod 16)]
      else [c])"

definition quote :: "string \<Rightarrow> string" where
  "quote s = dq # concat (map quote_char s) @ [dq]"

fun ser :: "jsval \<Rightarrow> string"
and ser_elems :: "jsval list \<Rightarrow> string"
and ser_members :: "bool \<Rightarrow> (string \<times> jsval) list \<Rightarrow> string" where
  "ser Undefined = ''null''"
| "ser Null = ''null''"
| "ser (Bool b) = (if b then ''true'' else ''false'')"
| "ser (Num i) = show_int i"
| "ser (Str s) = quote s"
| "ser (Arr xs) = ''['' @ ser_elems xs @ '']''"
| "ser (Obj ms) = ''{'' @ ser_members True ms @ ''}''"
| "ser_elems [] = []"
| "ser_elems [x] = ser x"
| "ser_elems (x # y # xs) = ser x @ '','' @ ser_elems (y # xs)"
| "ser_members first [] = []"
| "ser_members first ((k, v) # ms) =
     (if v = Undefined then ser_members first ms
      else (if first then [] else '','') @ quote k @ '':'' @ ser v @ ser_members False ms)"

definition JSON_stringify :: "jsval \<Rightarrow> string option" where
  "JSON_stringify v = (if v = Undefined then None else Some (ser v))"

subsection \<open>JSON: parsing\<close>

text \<open>
  \<^verbatim>\<open>JSON.parse\<close> as a lexer followed by a stack machine over the tokens.  The grammar
  is that of ECMA-404: white space is accepted between tokens; a raw control character
  inside a string, a leading zero and a trailing comma are rejected; when a key occurs
  twice in an object the later value replaces the earlier one, which keeps its position.

  Three kinds of literal are well-formed JSON that the value model cannot hold: a number
  with a fraction or an exponent, an integer beyond \<open>2\<^sup>5\<^sup>3\<close> (which the platform would
  round), and a string with a unicode escape of a code unit above \<open>0xFF\<close>.  The lexer
  reads such a literal to its end and yields the token \<open>TOutsideString\<close> or
  \<open>TOutsideNumber\<close> for it, and the machine accepts the token where the grammar accepts
  the literal.  The result of \<open>JSON_parse\<close> is \<open>SyntaxError\<close> for every text the platform
  function rejects, the value for a text it accepts, and \<open>OutsideModel\<close> for a text it
  accepts that contains such a literal.
\<close>

datatype token =
    TLBrace | TRBrace | TLBracket | TRBracket | TColon | TComma
  | TString string | TNumber int | TTrue | TFalse | TNull
  | TOutsideString | TOutsideNumber

definition is_ws :: "char \<Rightarrow> bool" where
  "is_ws c = (c = CHR 0x20 \<or> c = CHR 0x09 \<or> c = CHR 0x0A \<or> c = CHR 0x0D)"

definition is_digit :: "char \<Rightarrow> bool" where
  "is_digit c = (48 \<le> (of_char c :: nat) \<and> (of_char c :: nat) \<le> 57)"

definition digit_val :: "char \<Rightarrow> int" where
  "digit_val c = of_char c - 48"

definition int_of_digits :: "string \<Rightarrow> int" where
  "int_of_digits ds = foldl (\<lambda>n c. 10 * n + digit_val c) 0 ds"

definition hex_val :: "char \<Rightarrow> nat option" where
  "hex_val c =
     (let n = (of_char c :: nat) in
      if 48 \<le> n \<and> n \<le> 57 then Some (n - 48)
      else if 97 \<le> n \<and> n \<le> 102 then Some (n - 87)
      else if 65 \<le> n \<and> n \<le> 70 then Some (n - 55)
      else None)"

definition unescape :: "char \<Rightarrow> char option" where
  "unescape e =
     (if e = dq then Some dq
      else if e = bs then Some bs
      else if e = CHR ''/'' then Some (CHR ''/'')
      else if e = CHR ''b'' then Some (CHR 0x08)
      else if e = CHR ''f'' then Some (CHR 0x0C)
      else if e = CHR ''n'' then Some (CHR 0x0A)
      else if e = CHR ''r'' then Some (CHR 0x0D)
      else if e = CHR ''t'' then Some (CHR 0x09)
      else None)"

text \<open>
  A unicode escape: \<open>None\<close> when the four characters are not hex digits, \<open>Some None\<close> when
  the code unit is above \<open>0xFF\<close>, otherwise the character.
\<close>

definition unicode_escape :: "char \<Rightarrow> char \<Rightarrow> char \<Rightarrow> char \<Rightarrow> char option option" where
  "unicode_escape a b c d =
     (case (hex_val a, hex_val b, hex_val c, hex_val d) of
        (Some h3, Some h2, Some h1, Some h0) \<Rightarrow>
          Some (if h3 = 0 \<and> h2 = 0 then Some (char_of (16 * h1 + h0)) else None)
      | _ \<Rightarrow> None)"

text \<open>
  The lexer of a string, after the opening quote, returns the characters, or \<open>None\<close> in
  their place when one of them is outside the model, together with the text after the
  closing quote.
\<close>

definition cons_char ::
  "char option \<Rightarrow> (string option \<times> string) option \<Rightarrow> (string option \<times> string) option" where
  "cons_char c r =
     map_option (\<lambda>(s, rest). (case (c, s) of (Some c', Some s') \<Rightarrow> Some (c' # s') | _ \<Rightarrow> None, rest)) r"

fun lex_string :: "string \<Rightarrow> (string option \<times> string) option"
and lex_escape :: "string \<Rightarrow> (string option \<times> string) option" where
  "lex_string [] = None"
| "lex_string (c # cs) =
     (if c = dq then Some (Some [], cs)
      else if c = bs then lex_escape cs
      else if (of_char c :: nat) < 32 then None
      else cons_char (Some c) (lex_string cs))"
| "lex_escape [] = None"
| "lex_escape (e # cs) =
     (if e = CHR ''u''
      then (case cs of
              a # b # c # d # cs' \<Rightarrow>
                (case unicode_escape a b c d of
                   None \<Rightarrow> None
                 | Some ch \<Rightarrow> cons_char ch (lex_string cs'))
            | _ \<Rightarrow> None)
      else (case unescape e of
              None \<Rightarrow> None
            | Some ch \<Rightarrow> cons_char (Some ch) (lex_string cs)))"

text \<open>
  A number: an optional minus, the integer digits without leading zero, an optional
  fraction, an optional exponent.  The value is returned for an integer literal within
  \<open>2\<^sup>5\<^sup>3\<close>, and \<open>None\<close> in its place for the other well-formed literals.
\<close>

definition max_safe :: int where
  "max_safe = 9007199254740992"

definition lex_fraction :: "string \<Rightarrow> (bool \<times> string) option" where
  "lex_fraction cs =
     (case cs of
        [] \<Rightarrow> Some (False, [])
      | c # r \<Rightarrow>
          if c = CHR ''.''
          then (if takeWhile is_digit r = [] then None else Some (True, dropWhile is_digit r))
          else Some (False, cs))"

definition lex_exponent :: "string \<Rightarrow> (bool \<times> string) option" where
  "lex_exponent cs =
     (case cs of
        [] \<Rightarrow> Some (False, [])
      | c # r \<Rightarrow>
          if c = CHR ''e'' \<or> c = CHR ''E''
          then (let r' = (case r of
                            [] \<Rightarrow> r
                          | s # r2 \<Rightarrow> if s = CHR ''+'' \<or> s = CHR ''-'' then r2 else r)
                in if takeWhile is_digit r' = [] then None else Some (True, dropWhile is_digit r'))
          else Some (False, cs))"

definition lex_number :: "string \<Rightarrow> (int option \<times> string) option" where
  "lex_number cs =
     (let neg = (case cs of [] \<Rightarrow> False | c # _ \<Rightarrow> c = CHR ''-'');
          cs1 = (if neg then tl cs else cs);
          ds = takeWhile is_digit cs1
      in if ds = [] then None
         else if 1 < length ds \<and> hd ds = CHR ''0'' then None
         else (case lex_fraction (dropWhile is_digit cs1) of
                 None \<Rightarrow> None
               | Some (f, r1) \<Rightarrow>
                   (case lex_exponent r1 of
                      None \<Rightarrow> None
                    | Some (e, r2) \<Rightarrow>
                        if f \<or> e \<or> max_safe < int_of_digits ds then Some (None, r2)
                        else Some (Some (if neg then - int_of_digits ds
                                         else int_of_digits ds), r2))))"

definition cons_token :: "token \<Rightarrow> token list option \<Rightarrow> token list option" where
  "cons_token t r = map_option (Cons t) r"

text \<open>The lexer consumes input, which is what its termination needs.\<close>

lemma lex_string_length:
  "lex_string cs = Some (s, r) \<Longrightarrow> length r < length cs"
  "lex_escape cs = Some (s, r) \<Longrightarrow> length r < length cs"
  by (induction cs and cs arbitrary: s r and s r rule: lex_string_lex_escape.induct)
     (fastforce simp: cons_char_def less_Suc_eq split: if_splits list.splits option.splits)+

lemma length_dropWhile_takeWhile:
  "takeWhile P xs \<noteq> [] \<Longrightarrow> length (dropWhile P xs) < length xs"
  by (induction xs) (auto simp: le_imp_less_Suc length_dropWhile_le split: if_splits)

lemma lex_fraction_length: "lex_fraction cs = Some (f, r) \<Longrightarrow> length r \<le> length cs"
  by (cases cs)
     (auto simp: lex_fraction_def le_SucI length_dropWhile_le split: if_splits)

lemma lex_exponent_length: "lex_exponent cs = Some (e, r) \<Longrightarrow> length r \<le> length cs"
proof (cases cs)
  case Nil
  assume "lex_exponent cs = Some (e, r)"
  with Nil show ?thesis by (simp add: lex_exponent_def)
next
  case (Cons c cs')
  assume a: "lex_exponent cs = Some (e, r)"
  show ?thesis
  proof (cases "c = CHR ''e'' \<or> c = CHR ''E''")
    case False
    with a Cons show ?thesis by (auto simp: lex_exponent_def)
  next
    case True
    define r' where "r' = (case cs' of [] \<Rightarrow> cs'
        | s # r2 \<Rightarrow> if s = CHR ''+'' \<or> s = CHR ''-'' then r2 else cs')"
    have "length r' \<le> length cs'"
      by (cases cs') (simp_all add: r'_def)
    moreover from a Cons True have "r = dropWhile is_digit r'"
      by (auto simp: lex_exponent_def Let_def r'_def split: if_splits)
    moreover have "length (dropWhile is_digit r') \<le> length r'"
      by (rule length_dropWhile_le)
    ultimately show ?thesis using Cons by simp
  qed
qed

lemma lex_number_length: "lex_number cs = Some (i, r) \<Longrightarrow> length r < length cs"
proof -
  assume a: "lex_number cs = Some (i, r)"
  define cs1 where "cs1 = (if (case cs of [] \<Rightarrow> False | c # _ \<Rightarrow> c = CHR ''-'') then tl cs else cs)"
  have l1: "length cs1 \<le> length cs" by (simp add: cs1_def)
  from a have ne: "takeWhile is_digit cs1 \<noteq> []"
    by (auto simp: lex_number_def Let_def cs1_def split: if_splits)
  from a obtain f r1 e where fr: "lex_fraction (dropWhile is_digit cs1) = Some (f, r1)"
      and ex: "lex_exponent r1 = Some (e, r)"
    by (auto simp: lex_number_def Let_def cs1_def split: if_splits option.splits)
  have "length r \<le> length r1" using ex by (rule lex_exponent_length)
  also have "\<dots> \<le> length (dropWhile is_digit cs1)" using fr by (rule lex_fraction_length)
  also have "\<dots> < length cs1" using ne by (rule length_dropWhile_takeWhile)
  finally show ?thesis using l1 by simp
qed

text \<open>The token of a string or number literal.\<close>

definition string_token :: "string option \<Rightarrow> token" where
  "string_token s = (case s of None \<Rightarrow> TOutsideString | Some s' \<Rightarrow> TString s')"

definition number_token :: "int option \<Rightarrow> token" where
  "number_token i = (case i of None \<Rightarrow> TOutsideNumber | Some i' \<Rightarrow> TNumber i')"

definition lex_token :: "string \<Rightarrow> (token \<times> string) option" where
  "lex_token cs =
     (case cs of
        [] \<Rightarrow> None
      | c # r \<Rightarrow>
          if c = CHR ''{'' then Some (TLBrace, r)
          else if c = CHR ''}'' then Some (TRBrace, r)
          else if c = CHR ''['' then Some (TLBracket, r)
          else if c = CHR '']'' then Some (TRBracket, r)
          else if c = CHR '':'' then Some (TColon, r)
          else if c = CHR '','' then Some (TComma, r)
          else if c = dq then map_option (\<lambda>(s, r'). (string_token s, r')) (lex_string r)
          else if c = CHR ''-'' \<or> is_digit c
            then map_option (\<lambda>(i, r'). (number_token i, r')) (lex_number cs)
          else if take 4 cs = ''true'' then Some (TTrue, drop 4 cs)
          else if take 5 cs = ''false'' then Some (TFalse, drop 5 cs)
          else if take 4 cs = ''null'' then Some (TNull, drop 4 cs)
          else None)"

lemma lex_token_length:
  assumes "lex_token cs = Some (t, r)"
  shows "length r < length cs"
proof (cases cs)
  case Nil
  with assms show ?thesis by (simp add: lex_token_def)
next
  case (Cons c cs')
  have str: "length r < length cs" if "map_option (\<lambda>(s, r'). (string_token s, r')) (lex_string cs') = Some (t, r)"
    using that Cons by (auto dest: lex_string_length(1))
  have num: "length r < length cs" if "map_option (\<lambda>(i, r'). (number_token i, r')) (lex_number cs) = Some (t, r)"
    using that by (auto dest: lex_number_length)
  from assms show ?thesis
    unfolding lex_token_def Cons list.case
    apply (simp only: Cons [symmetric] split: if_splits)
    using str num Cons apply (simp_all (no_asm_use))
    apply auto
    done
qed

function lex :: "string \<Rightarrow> token list option" where
  "lex [] = Some []"
| "lex (c # cs) =
     (if is_ws c then lex cs
      else (case lex_token (c # cs) of
              None \<Rightarrow> None
            | Some (t, r) \<Rightarrow> cons_token t (lex r)))"
  by pat_completeness auto
termination
  by (relation "measure length") (auto dest: lex_token_length)

declare lex.simps [simp del]

text \<open>
  The machine: \<open>Value\<close> expects a value, \<open>ArrStart\<close> and \<open>ObjStart\<close> follow an opening
  bracket or brace, \<open>Key ms\<close> expects a member of an object whose members so far are
  \<open>ms\<close>, \<open>After v\<close> has just completed the value \<open>v\<close>.  The stack holds the arrays and
  objects under construction.
\<close>

datatype frame = InArr "jsval list" | InObj "(string \<times> jsval) list" string

datatype mode = Value | ArrStart | ObjStart | Key "(string \<times> jsval) list" | After jsval

function (sequential) parse :: "mode \<Rightarrow> frame list \<Rightarrow> token list \<Rightarrow> jsval option" where
  "parse (After v) [] [] = Some v"
| "parse m st [] = None"
| "parse Value st (t # ts) =
     (case t of
        TNull \<Rightarrow> parse (After Null) st ts
      | TTrue \<Rightarrow> parse (After (Bool True)) st ts
      | TFalse \<Rightarrow> parse (After (Bool False)) st ts
      | TNumber i \<Rightarrow> parse (After (Num i)) st ts
      | TString s \<Rightarrow> parse (After (Str s)) st ts
      | TLBracket \<Rightarrow> parse ArrStart st ts
      | TLBrace \<Rightarrow> parse ObjStart st ts
      | TOutsideString \<Rightarrow> parse (After Null) st ts
      | TOutsideNumber \<Rightarrow> parse (After Null) st ts
      | _ \<Rightarrow> None)"
| "parse ArrStart st (t # ts) =
     (if t = TRBracket then parse (After (Arr [])) st ts
      else parse Value (InArr [] # st) (t # ts))"
| "parse ObjStart st (t # ts) =
     (if t = TRBrace then parse (After (Obj [])) st ts
      else parse (Key []) st (t # ts))"
| "parse (Key ms) st (TString k # TColon # ts) = parse Value (InObj ms k # st) ts"
| "parse (Key ms) st (TOutsideString # TColon # ts) = parse Value (InObj ms [] # st) ts"
| "parse (Key ms) st (t # ts) = None"
| "parse (After v) [] (t # ts) = None"
| "parse (After v) (InArr xs # st) (t # ts) =
     (if t = TComma then parse Value (InArr (xs @ [v]) # st) ts
      else if t = TRBracket then parse (After (Arr (xs @ [v]))) st ts
      else None)"
| "parse (After v) (InObj ms k # st) (t # ts) =
     (if t = TComma then parse (Key (AList.update k v ms)) st ts
      else if t = TRBrace then parse (After (Obj (AList.update k v ms))) st ts
      else None)"
  by pat_completeness auto
termination
  by (relation "measure (\<lambda>(m, st, ts). 2 * length ts + (case m of ArrStart \<Rightarrow> 1 | ObjStart \<Rightarrow> 1 | _ \<Rightarrow> 0))")
     auto

definition JSON_parse :: "string \<Rightarrow> exn + jsval" where
  "JSON_parse text =
     (case lex text of
        None \<Rightarrow> Inl SyntaxError
      | Some ts \<Rightarrow>
          (case parse Value [] ts of
             None \<Rightarrow> Inl SyntaxError
           | Some v \<Rightarrow>
               if TOutsideString \<in> set ts \<or> TOutsideNumber \<in> set ts then Inl OutsideModel
               else Inr v))"

subsection \<open>JSON: the values that survive serialisation\<close>



definition sep :: "string \<Rightarrow> bool" where
  "sep cs =
     (case cs of
        [] \<Rightarrow> True
      | c # _ \<Rightarrow> \<not> is_digit c \<and> c \<noteq> CHR ''.'' \<and> c \<noteq> CHR ''e'' \<and> c \<noteq> CHR ''E'')"


definition lexes :: "string \<Rightarrow> token list \<Rightarrow> bool" where
  "lexes xs ts = (\<forall>cs. sep cs \<longrightarrow> lex (xs @ cs) = map_option ((@) ts) (lex cs))"




subsection \<open>Browser state: sockets, timers, emitted events\<close>

text \<open>
  A \<^verbatim>\<open>WebSocket\<close> object: its \<^verbatim>\<open>readyState\<close>, which of the four handler slots hold
  the closures installed by \<^verbatim>\<open>setupEventListeners\<close>, and the text frames handed to
  its \<^verbatim>\<open>send\<close> method (oldest first).
\<close>

datatype readyState = CONNECTING | OPEN | CLOSING | CLOSED

record WebSocket =
  sock_url :: string
  readyState :: readyState
  onopen :: bool
  onclose :: bool
  onerror :: bool
  onmessage :: bool
  sent :: "string list"

text \<open>
  One state for the object and its environment.  The first six fields are the fields of
  \<^verbatim>\<open>WebSocketService\<close>; \<open>ws\<close> and \<open>reconnectTimeoutId\<close> are references (an index into
  \<open>sockets\<close>, a timer id).  \<open>listeners\<close> is the state of the base class: for each event
  name the number of listeners registered.  \<open>sockets\<close> holds every socket constructed
  so far, \<open>timers\<close> the pending timeouts (id and delay), \<open>next_timer\<close> the id the next
  \<^verbatim>\<open>setTimeout\<close> returns (ids are positive, hence truthy), \<open>emitted\<close> the calls of
  \<^verbatim>\<open>emit\<close> in order.
\<close>

record channel =
  url :: string
  reconnectAttempts :: int
  reconnectInterval :: int
  reconnectCount :: int
  ws :: "nat option"
  reconnectTimeoutId :: "nat option"
  listeners :: "string \<Rightarrow> nat"
  sockets :: "WebSocket list"
  timers :: "(nat \<times> int) list"
  next_timer :: nat
  emitted :: "(string \<times> arg list) list"

record WebSocketServiceOptions =
  opt_url :: string
  opt_reconnectAttempts :: "int option"
  opt_reconnectInterval :: "int option"

text \<open>
  A call returns, or it raises an exception; either way it leaves a state behind: the
  assignments made before a \<^verbatim>\<open>throw\<close> stay.  \<open>and_then\<close> is the sequencing of two
  statements: the second does not run when the first has raised.  \<open>or_catch\<close> is a
  \<^verbatim>\<open>try\<close> with a \<^verbatim>\<open>catch\<close> block that does not look at the exception.
\<close>

datatype outcome = Returns channel | Throws exn channel

fun state_of :: "outcome \<Rightarrow> channel" where
  "state_of (Returns w) = w"
| "state_of (Throws e w) = w"

fun and_then :: "outcome \<Rightarrow> (channel \<Rightarrow> outcome) \<Rightarrow> outcome" where
  "and_then (Returns w) f = f w"
| "and_then (Throws e w) f = Throws e w"

fun or_catch :: "outcome \<Rightarrow> (channel \<Rightarrow> outcome) \<Rightarrow> outcome" where
  "or_catch (Returns w) h = Returns w"
| "or_catch (Throws e w) h = h w"

text \<open>\<^verbatim>\<open>x || d\<close> on an optional number: \<^verbatim>\<open>undefined\<close> and \<^verbatim>\<open>0\<close> are falsy.\<close>

definition or_default :: "int option \<Rightarrow> int \<Rightarrow> int" where
  "or_default x d = (case x of None \<Rightarrow> d | Some n \<Rightarrow> if n = 0 then d else n)"

text \<open>The constructor: \<^verbatim>\<open>super()\<close> leaves the object without listeners.\<close>

definition WebSocketService_constructor :: "WebSocketServiceOptions \<Rightarrow> channel" where
  "WebSocketService_constructor options =
     \<lparr> url = opt_url options,
       reconnectAttempts = or_default (opt_reconnectAttempts options) 5,
       reconnectInterval = or_default (opt_reconnectInterval options) 3000,
       reconnectCount = 0,
       ws = None,
       reconnectTimeoutId = None,
       listeners = (\<lambda>name. 0),
       sockets = [],
       timers = [],
       next_timer = 1,
       emitted = [] \<rparr>"

text \<open>The static \<^verbatim>\<open>instance\<close> is passed in; the options are ignored when it is set.\<close>

definition getInstance :: "channel option \<Rightarrow> WebSocketServiceOptions \<Rightarrow> channel" where
  "getInstance inst options =
     (case inst of None \<Rightarrow> WebSocketService_constructor options | Some w \<Rightarrow> w)"

text \<open>
  The methods inherited from \<^verbatim>\<open>EventEmitter\<close> (package \<^verbatim>\<open>events\<close>, not part of the
  sources), as far as the class depends on them.  \<^verbatim>\<open>addListener\<close> (alias \<^verbatim>\<open>on\<close>) and
  \<^verbatim>\<open>removeListener\<close> (alias \<^verbatim>\<open>off\<close>, called with a registered listener) change the
  number of listeners of an event.  \<^verbatim>\<open>emit\<close> invokes the listeners of the event and
  returns; for the event \<open>error\<close> without a listener it raises instead.  The call is
  recorded in \<open>emitted\<close> in both cases.  The listeners themselves are code outside the
  class (the sources register none): they are taken to return without raising and
  without calling the Channel.
\<close>

definition addListener :: "string \<Rightarrow> channel \<Rightarrow> channel" where
  "addListener name w = w\<lparr>listeners := (listeners w)(name := Suc (listeners w name))\<rparr>"

definition removeListener :: "string \<Rightarrow> channel \<Rightarrow> channel" where
  "removeListener name w = w\<lparr>listeners := (listeners w)(name := listeners w name - 1)\<rparr>"

definition emit :: "string \<Rightarrow> arg list \<Rightarrow> channel \<Rightarrow> outcome" where
  "emit name args w =
     (if name = ''error'' \<and> listeners w ''error'' = 0
      then Throws (Unhandled args) (w\<lparr>emitted := emitted w @ [(name, args)]\<rparr>)
      else Returns (w\<lparr>emitted := emitted w @ [(name, args)]\<rparr>))"

definition setTimeout :: "int \<Rightarrow> channel \<Rightarrow> nat \<times> channel" where
  "setTimeout delay w =
     (next_timer w, w\<lparr>timers := timers w @ [(next_timer w, delay)], next_timer := Suc (next_timer w)\<rparr>)"

definition clearTimeout :: "nat \<Rightarrow> channel \<Rightarrow> channel" where
  "clearTimeout t w = w\<lparr>timers := filter (\<lambda>p. fst p \<noteq> t) (timers w)\<rparr>"

definition new_WebSocket :: "string \<Rightarrow> WebSocket" where
  "new_WebSocket u =
     \<lparr> sock_url = u, readyState = CONNECTING, onopen = False, onclose = False,
       onerror = False, onmessage = False, sent = [] \<rparr>"

text \<open>\<^verbatim>\<open>this.ws?.readyState === WebSocket.OPEN\<close>\<close>

definition ws_open :: "channel \<Rightarrow> bool" where
  "ws_open w =
     (case ws w of None \<Rightarrow> False
      | Some i \<Rightarrow> i < length (sockets w) \<and> readyState (sockets w ! i) = OPEN)"

text \<open>
  \<^verbatim>\<open>socket.close()\<close>: a socket that is connecting or open starts its closing handshake;
  the close event is delivered later.  \<^verbatim>\<open>socket.send(text)\<close> hands one frame over.
\<close>

definition socket_close :: "nat \<Rightarrow> channel \<Rightarrow> channel" where
  "socket_close i w =
     (if i < length (sockets w) \<and> readyState (sockets w ! i) \<in> {CONNECTING, OPEN}
      then w\<lparr>sockets := (sockets w)[i := (sockets w ! i)\<lparr>readyState := CLOSING\<rparr>]\<rparr>
      else w)"

definition socket_send :: "nat \<Rightarrow> string \<Rightarrow> channel \<Rightarrow> channel" where
  "socket_send i text w =
     w\<lparr>sockets := (sockets w)[i := (sockets w ! i)\<lparr>sent := sent (sockets w ! i) @ [text]\<rparr>]\<rparr>"

subsection \<open>The methods of \<^verbatim>\<open>WebSocketService\<close>\<close>

definition attemptReconnect :: "channel \<Rightarrow> outcome" where
  "attemptReconnect w =
     (if reconnectCount w < reconnectAttempts w
      then (case setTimeout (reconnectInterval w) w of
              (t, w') \<Rightarrow> Returns (w'\<lparr>reconnectTimeoutId := Some t\<rparr>))
      else emit ''error'' [Err ''Maximum reconnection attempts reached''] w)"

definition setupEventListeners :: "channel \<Rightarrow> channel" where
  "setupEventListeners w =
     (case ws w of None \<Rightarrow> w
      | Some i \<Rightarrow>
          w\<lparr>sockets := (sockets w)[i := (sockets w ! i)
               \<lparr>onopen := True, onclose := True, onerror := True, onmessage := True\<rparr>]\<rparr>)"

text \<open>
  \<open>url_ok\<close> says for which addresses the \<^verbatim>\<open>WebSocket\<close> constructor returns; for the
  others it throws, and the assignment to \<^verbatim>\<open>this.ws\<close> does not happen.  The two
  statements of the \<^verbatim>\<open>catch\<close> block are not guarded: when \<^verbatim>\<open>emit\<close> raises,
  \<^verbatim>\<open>attemptReconnect\<close> does not run and the exception leaves \<^verbatim>\<open>connect\<close>.
\<close>

definition connect :: "(string \<Rightarrow> bool) \<Rightarrow> channel \<Rightarrow> outcome" where
  "connect url_ok w =
     (if ws_open w then Returns w
      else if url_ok (url w)
        then Returns (setupEventListeners
               (w\<lparr>sockets := sockets w @ [new_WebSocket (url w)], ws := Some (length (sockets w))\<rparr>))
        else and_then (emit ''error'' [Thrown] w) attemptReconnect)"

text \<open>The two statements of \<^verbatim>\<open>disconnect\<close>, in order.\<close>

definition cancel_retry :: "channel \<Rightarrow> channel" where
  "cancel_retry w =
     (case reconnectTimeoutId w of
        None \<Rightarrow> w
      | Some t \<Rightarrow> if t \<noteq> 0 then clearTimeout t w else w)"

definition release_socket :: "channel \<Rightarrow> channel" where
  "release_socket w =
     (case ws w of
        None \<Rightarrow> w
      | Some i \<Rightarrow> (socket_close i w)\<lparr>ws := None\<rparr>)"

definition disconnect :: "channel \<Rightarrow> channel" where
  "disconnect w = release_socket (cancel_retry w)"

text \<open>The object literal \<^verbatim>\<open>{ type, payload }\<close>.\<close>

definition envelope :: "string \<Rightarrow> jsval \<Rightarrow> jsval" where
  "envelope type payload = Obj [(''type'', Str type), (''payload'', payload)]"

definition send :: "string \<Rightarrow> jsval \<Rightarrow> channel \<Rightarrow> outcome" where
  "send type payload w =
     (if ws_open w
      then (case ws w of
              None \<Rightarrow> Returns w
            | Some i \<Rightarrow>
                (case JSON_stringify (envelope type payload) of
                   None \<Rightarrow> Returns (socket_send i ''undefined'' w)
                 | Some text \<Rightarrow> Returns (socket_send i text w)))
      else emit ''error'' [Err ''WebSocket is not connected''] w)"

text \<open>
  \<^verbatim>\<open>handleMessage\<close>: reading \<^verbatim>\<open>message.type\<close> or \<^verbatim>\<open>message.payload\<close> may raise;
  \<^verbatim>\<open>switch\<close> compares with \<^verbatim>\<open>===\<close>, so only a string matches a case label.
  \<open>emit_payload\<close> is the statement \<^verbatim>\<open>this.emit(name, message.payload)\<close> of the four
  cases.
\<close>

definition emit_payload :: "string \<Rightarrow> jsval \<Rightarrow> channel \<Rightarrow> outcome" where
  "emit_payload name message w =
     (case get_prop message ''payload'' of
        Inl e \<Rightarrow> Throws e w
      | Inr payload \<Rightarrow> emit name [Val payload] w)"

definition handleMessage :: "jsval \<Rightarrow> channel \<Rightarrow> outcome" where
  "handleMessage message w =
     (case get_prop message ''type'' of
        Inl e \<Rightarrow> Throws e w
      | Inr t \<Rightarrow>
          if t = Str ''pr_update'' then emit_payload ''prUpdate'' message w
          else if t = Str ''new_suggestion'' then emit_payload ''newSuggestion'' message w
          else if t = Str ''new_comment'' then emit_payload ''newComment'' message w
          else if t = Str ''suggestion_status_change''
            then emit_payload ''suggestionStatusChange'' message w
          else emit ''message'' [Val message] w)"

text \<open>The typed senders.\<close>

definition subscribeToPR :: "int \<Rightarrow> channel \<Rightarrow> outcome" where
  "subscribeToPR prId = send ''subscribe_pr'' (Obj [(''prId'', Num prId)])"

definition unsubscribeFromPR :: "int \<Rightarrow> channel \<Rightarrow> outcome" where
  "unsubscribeFromPR prId = send ''unsubscribe_pr'' (Obj [(''prId'', Num prId)])"

definition sendComment :: "int \<Rightarrow> string \<Rightarrow> int option \<Rightarrow> channel \<Rightarrow> outcome" where
  "sendComment prId comment lineNumber =
     send ''new_comment''
       (Obj [(''prId'', Num prId), (''comment'', Str comment),
             (''lineNumber'', case lineNumber of None \<Rightarrow> Undefined | Some n \<Rightarrow> Num n)])"

definition markSuggestionStatus :: "string \<Rightarrow> string \<Rightarrow> channel \<Rightarrow> outcome" where
  "markSuggestionStatus suggestionId status =
     send ''suggestion_status'' (Obj [(''suggestionId'', Str suggestionId), (''status'', Str status)])"

definition requestAnalysis :: "int \<Rightarrow> channel \<Rightarrow> outcome" where
  "requestAnalysis prId = send ''request_analysis'' (Obj [(''prId'', Num prId)])"

subsection \<open>The callbacks installed by \<^verbatim>\<open>setupEventListeners\<close> and by \<^verbatim>\<open>setTimeout\<close>\<close>

definition onopen_handler :: "channel \<Rightarrow> outcome" where
  "onopen_handler w =
     and_then (emit ''connected'' [] w) (\<lambda>w'. Returns (w'\<lparr>reconnectCount := 0\<rparr>))"

definition onclose_handler :: "channel \<Rightarrow> outcome" where
  "onclose_handler w = and_then (emit ''disconnected'' [] w) attemptReconnect"

definition onerror_handler :: "arg \<Rightarrow> channel \<Rightarrow> outcome" where
  "onerror_handler error w = emit ''error'' [error] w"

text \<open>
  The body of the \<^verbatim>\<open>try\<close> is \<^verbatim>\<open>JSON.parse\<close> followed by \<^verbatim>\<open>handleMessage\<close>; an
  exception of either reaches the \<^verbatim>\<open>catch\<close>, whose one statement emits the error and
  is not guarded itself.  For a frame that is outside the model the callback has no
  result.
\<close>

definition onmessage_handler :: "string \<Rightarrow> channel \<Rightarrow> outcome option" where
  "onmessage_handler data w =
     (case JSON_parse data of
        Inl OutsideModel \<Rightarrow> None
      | Inl e \<Rightarrow> Some (emit ''error'' [Err ''Failed to parse WebSocket message''] w)
      | Inr message \<Rightarrow>
          Some (or_catch (handleMessage message w)
                  (emit ''error'' [Err ''Failed to parse WebSocket message''])))"

text \<open>The closure handed to \<^verbatim>\<open>setTimeout\<close> by \<^verbatim>\<open>attemptReconnect\<close>.\<close>

definition timeout_handler :: "(string \<Rightarrow> bool) \<Rightarrow> channel \<Rightarrow> outcome" where
  "timeout_handler url_ok w = connect url_ok (w\<lparr>reconnectCount := reconnectCount w + 1\<rparr>)"

subsection \<open>The event loop\<close>

text \<open>
  One turn of the event loop is a call of a public method or the delivery of an event by
  the browser.  The browser opens a socket that is connecting, closes a socket that is
  not yet closed, reports an error on or delivers a frame to a socket, and fires a
  pending timeout; each runs the handler in the socket's slot if one is installed.  All
  timeouts of this class carry the same closure.  A turn that the browser cannot take,
  and the delivery of a frame that is outside the model, yield \<open>None\<close>.  Delays are not
  modelled: any pending timeout may fire.  An exception that leaves a turn goes to the
  caller of the method or is reported by the browser; the loop goes on from the state
  the turn has left.
\<close>

datatype turn =
    Connect
  | Disconnect
  | Send string jsval
  | AddListener string
  | RemoveListener string
  | SockOpen nat
  | SockClose nat
  | SockError nat
  | SockMessage nat string
  | TimerFire nat

definition set_readyState :: "nat \<Rightarrow> readyState \<Rightarrow> channel \<Rightarrow> channel" where
  "set_readyState i r w = w\<lparr>sockets := (sockets w)[i := (sockets w ! i)\<lparr>readyState := r\<rparr>]\<rparr>"

fun step :: "(string \<Rightarrow> bool) \<Rightarrow> turn \<Rightarrow> channel \<Rightarrow> outcome option" where
  "step url_ok Connect w = Some (connect url_ok w)"
| "step url_ok Disconnect w = Some (Returns (disconnect w))"
| "step url_ok (Send type payload) w = Some (send type payload w)"
| "step url_ok (AddListener name) w = Some (Returns (addListener name w))"
| "step url_ok (RemoveListener name) w = Some (Returns (removeListener name w))"
| "step url_ok (SockOpen i) w =
     (if i < length (sockets w) \<and> readyState (sockets w ! i) = CONNECTING
      then Some (if onopen (sockets w ! i) then onopen_handler (set_readyState i OPEN w)
                 else Returns (set_readyState i OPEN w))
      else None)"
| "step url_ok (SockClose i) w =
     (if i < length (sockets w) \<and> readyState (sockets w ! i) \<noteq> CLOSED
      then Some (if onclose (sockets w ! i) then onclose_handler (set_readyState i CLOSED w)
                 else Returns (set_readyState i CLOSED w))
      else None)"
| "step url_ok (SockError i) w =
     (if i < length (sockets w) \<and> readyState (sockets w ! i) \<noteq> CLOSED
      then Some (if onerror (sockets w ! i) then onerror_handler (ErrorEvent i) w else Returns w)
      else None)"
| "step url_ok (SockMessage i data) w =
     (if i < length (sockets w) \<and> readyState (sockets w ! i) = OPEN
      then (if onmessage (sockets w ! i) then onmessage_handler data w else Some (Returns w))
      else None)"
| "step url_ok (TimerFire t) w =
     (if t \<in> fst ` set (timers w)
      then Some (timeout_handler url_ok (clearTimeout t w))
      else None)"

fun run :: "(string \<Rightarrow> bool) \<Rightarrow> turn list \<Rightarrow> channel \<Rightarrow> channel option" where
  "run url_ok [] w = Some w"
| "run url_ok (a # as) w =
     (case step url_ok a w of None \<Rightarrow> None | Some r \<Rightarrow> run url_ok as (state_of r))"

subsection \<open>Counting what is outstanding\<close>







subsection \<open>The retry cycle\<close>




subsection \<open>The dispatch table of the specification\<close>




subsection \<open>Subscriber Registry\<close>

text \<open>
  Modelled from the spec: the Subscriber Registry, that is the methods \<^verbatim>\<open>on\<close>,
  \<^verbatim>\<open>off\<close> and the delivery loop of \<^verbatim>\<open>emit\<close>, which the class inherits from
  \<^verbatim>\<open>EventEmitter\<close> of package \<^verbatim>\<open>events\<close>; that package is not part of the sources.
  The specification (sections 2, 3 and 4.1) describes a mapping from event name to an
  ordered list of handlers: \<^verbatim>\<open>on\<close> registers at the end, \<^verbatim>\<open>off\<close> removes the
  subscription of the handler, and an emission takes a snapshot of the list and then
  iterates over it.  A handler is identified by a number; \<open>body h\<close> lists the calls of
  \<^verbatim>\<open>on\<close> and \<^verbatim>\<open>off\<close> that handler \<open>h\<close> makes when it is invoked.  \<open>deliver\<close> returns the
  handlers it invoked, in order, and the registry the handlers leave behind.
\<close>

type_synonym handler = nat

type_synonym registry = "string \<Rightarrow> handler list"

datatype reg_call = On string handler | Off string handler

definition on :: "string \<Rightarrow> handler \<Rightarrow> registry \<Rightarrow> registry" where
  "on ev h r = r(ev := r ev @ [h])"

definition off :: "string \<Rightarrow> handler \<Rightarrow> registry \<Rightarrow> registry" where
  "off ev h r = r(ev := removeAll h (r ev))"

fun reg_calls :: "reg_call list \<Rightarrow> registry \<Rightarrow> registry" where
  "reg_calls [] r = r"
| "reg_calls (On ev h # cs) r = reg_calls cs (on ev h r)"
| "reg_calls (Off ev h # cs) r = reg_calls cs (off ev h r)"

fun deliver :: "(handler \<Rightarrow> reg_call list) \<Rightarrow> handler list \<Rightarrow> registry \<Rightarrow> handler list \<times> registry" where
  "deliver body [] r = ([], r)"
| "deliver body (h # hs) r =
     (case deliver body hs (reg_calls (body h) r) of (invoked, r') \<Rightarrow> (h # invoked, r'))"

definition emission :: "(handler \<Rightarrow> reg_call list) \<Rightarrow> string \<Rightarrow> registry \<Rightarrow> handler list \<times> registry" where
  "emission body ev r = deliver body (r ev) r"

definition no_handlers :: registry where
  "no_handlers ev = []"

definition example_body :: "handler \<Rightarrow> reg_call list" where
  "example_body h = (if h = 1 then [On ''prUpdate'' 2, Off ''prUpdate'' 3] else [])"

definition example_registry :: registry where
  "example_registry =
     reg_calls [On ''prUpdate'' 1, On ''prUpdate'' 3, On ''prUpdate'' 4, Off ''prUpdate'' 4] no_handlers"

subsection \<open>Example states\<close>

text \<open>
  The configuration of the specification's retry scenario and the Channel it constructs;
  the same Channel after \<^verbatim>\<open>connect()\<close>, after the open event, after a failed first
  attempt, during the handshake of its last retry, and after the close that exhausts
  the budget; the Channel and the open Channel with one listener registered for
  \<open>error\<close>.
\<close>

definition example_options :: WebSocketServiceOptions where
  "example_options =
     \<lparr>opt_url = ''ws://host/ws'', opt_reconnectAttempts = Some 2, opt_reconnectInterval = Some 100\<rparr>"

definition example_fresh :: channel where
  "example_fresh = WebSocketService_constructor example_options"

definition example_open :: channel where
  "example_open =
     \<lparr> url = ''ws://host/ws'', reconnectAttempts = 2, reconnectInterval = 100,
       reconnectCount = 0, ws = Some 0, reconnectTimeoutId = None,
       listeners = (\<lambda>name. 0),
       sockets = [\<lparr> sock_url = ''ws://host/ws'', readyState = OPEN, onopen = True,
                    onclose = True, onerror = True, onmessage = True, sent = [] \<rparr>],
       timers = [], next_timer = 1, emitted = [(''connected'', [])] \<rparr>"

definition example_connecting :: channel where
  "example_connecting =
     \<lparr> url = ''ws://host/ws'', reconnectAttempts = 2, reconnectInterval = 100,
       reconnectCount = 0, ws = Some 0, reconnectTimeoutId = None,
       listeners = (\<lambda>name. 0),
       sockets = [\<lparr> sock_url = ''ws://host/ws'', readyState = CONNECTING, onopen = True,
                    onclose = True, onerror = True, onmessage = True, sent = [] \<rparr>],
       timers = [], next_timer = 1, emitted = [] \<rparr>"

definition example_retrying :: channel where
  "example_retrying =
     \<lparr> url = ''ws://host/ws'', reconnectAttempts = 2, reconnectInterval = 100,
       reconnectCount = 0, ws = Some 0, reconnectTimeoutId = Some 1,
       listeners = (\<lambda>name. 0),
       sockets = [\<lparr> sock_url = ''ws://host/ws'', readyState = CLOSED, onopen = True,
                    onclose = True, onerror = True, onmessage = True, sent = [] \<rparr>],
       timers = [(1, 100)], next_timer = 2, emitted = [(''disconnected'', [])] \<rparr>"

definition example_last_attempt :: channel where
  "example_last_attempt =
     \<lparr> url = ''ws://host/ws'', reconnectAttempts = 2, reconnectInterval = 100,
       reconnectCount = 2, ws = Some 2, reconnectTimeoutId = Some 2,
       listeners = (\<lambda>name. 0),
       sockets = [\<lparr> sock_url = ''ws://host/ws'', readyState = CLOSED, onopen = True,
                    onclose = True, onerror = True, onmessage = True, sent = [] \<rparr>,
                  \<lparr> sock_url = ''ws://host/ws'', readyState = CLOSED, onopen = True,
                    onclose = True, onerror = True, onmessage = True, sent = [] \<rparr>,
                  \<lparr> sock_url = ''ws://host/ws'', readyState = CONNECTING, onopen = True,
                    onclose = True, onerror = True, onmessage = True, sent = [] \<rparr>],
       timers = [], next_timer = 3,
       emitted = [(''disconnected'', []), (''disconnected'', [])] \<rparr>"

definition example_exhausted :: channel where
  "example_exhausted =
     example_last_attempt
       \<lparr> sockets := [\<lparr> sock_url = ''ws://host/ws'', readyState = CLOSED, onopen = True,
                       onclose = True, onerror = True, onmessage = True, sent = [] \<rparr>,
                     \<lparr> sock_url = ''ws://host/ws'', readyState = CLOSED, onopen = True,
                       onclose = True, onerror = True, onmessage = True, sent = [] \<rparr>,
                     \<lparr> sock_url = ''ws://host/ws'', readyState = CLOSED, onopen = True,
                       onclose = True, onerror = True, onmessage = True, sent = [] \<rparr>],
         emitted := [(''disconnected'', []), (''disconnected'', []), (''disconnected'', []),
                     (''error'', [Err ''Maximum reconnection attempts reached''])] \<rparr>"

definition example_fresh_listening :: channel where
  "example_fresh_listening = addListener ''error'' example_fresh"

definition example_open_listening :: channel where
  "example_open_listening = addListener ''error'' example_open"







text \<open>A \<^verbatim>\<open>WebSocket\<close> constructor that accepts every address, and one that accepts none.\<close>

definition any_url :: "string \<Rightarrow> bool" where
  "any_url u = True"

definition no_url :: "string \<Rightarrow> bool" where
  "no_url u = False"

section \<open>Verified properties\<close>

subsection \<open>Defaulting of the options\<close>

text \<open>
  C10.  An option given as \<open>0\<close> is replaced by the default as an absent one is: the
  attempt budget becomes 5 and the interval 3000, through the constructor and through
  \<^verbatim>\<open>getInstance\<close>.  Hence, whatever the options, the budget and the interval the
  Channel stores are never \<open>0\<close>.
\<close>

theorem zero_options_yield_defaults:
  "reconnectAttempts (WebSocketService_constructor (options\<lparr>opt_reconnectAttempts := Some 0\<rparr>)) = 5
   \<and> reconnectInterval (WebSocketService_constructor (options\<lparr>opt_reconnectInterval := Some 0\<rparr>)) = 3000
   \<and> reconnectAttempts (WebSocketService_constructor (options\<lparr>opt_reconnectAttempts := None\<rparr>)) = 5
   \<and> reconnectInterval (WebSocketService_constructor (options\<lparr>opt_reconnectInterval := None\<rparr>)) = 3000
   \<and> reconnectAttempts (getInstance None options) \<noteq> 0
   \<and> reconnectInterval (getInstance None options) \<noteq> 0"
  by (simp add: WebSocketService_constructor_def getInstance_def or_default_def
        split: option.split)

theorem zero_options_yield_defaults_witness:
  "reconnectAttempts (WebSocketService_constructor
      \<lparr>opt_url = ''ws://host/ws'', opt_reconnectAttempts = Some 0, opt_reconnectInterval = Some 0\<rparr>) = 5
   \<and> reconnectInterval (WebSocketService_constructor
      \<lparr>opt_url = ''ws://host/ws'', opt_reconnectAttempts = Some 0, opt_reconnectInterval = Some 0\<rparr>) = 3000"
  using zero_options_yield_defaults
    [of "\<lparr>opt_url = ''ws://host/ws'', opt_reconnectAttempts = Some 0, opt_reconnectInterval = Some 0\<rparr>"]
  by simp

subsection \<open>Evaluating schedules\<close>

lemmas channel_defs =
  example_options_def example_fresh_def example_open_def example_fresh_listening_def
  example_open_listening_def example_connecting_def example_retrying_def
  example_last_attempt_def
  example_exhausted_def any_url_def no_url_def
  WebSocketService_constructor_def or_default_def connect_def ws_open_def
  setupEventListeners_def new_WebSocket_def set_readyState_def onopen_handler_def emit_def
  onclose_handler_def onerror_handler_def attemptReconnect_def setTimeout_def clearTimeout_def
  timeout_handler_def disconnect_def cancel_retry_def release_socket_def socket_close_def
  socket_send_def addListener_def removeListener_def Let_def

lemma example_open_reachable:
  "run any_url [Connect, SockOpen 0] example_fresh = Some example_open"
  "run any_url [AddListener ''error'', Connect, SockOpen 0] example_fresh = Some example_open_listening"
  "run any_url [Connect] example_fresh = Some example_connecting"
  "run any_url [Connect, SockClose 0, TimerFire 1, SockClose 1, TimerFire 2] example_fresh
     = Some example_last_attempt"
  "run any_url [SockClose 2] example_last_attempt = Some example_exhausted"
  by (simp_all add: channel_defs)

subsection \<open>\<^verbatim>\<open>connect()\<close>\<close>

text \<open>
  C7.  While the owned socket is open \<^verbatim>\<open>connect()\<close> returns and changes nothing, so
  two calls in succession leave the one socket there is.  Otherwise, when the
  constructor accepts the address, exactly one socket is added: it is in state
  \<open>CONNECTING\<close> (the call returns before the handshake), it carries the open, close,
  error and message callbacks, and the Channel owns it; nothing else changes.  When the
  constructor throws, the exception is emitted as an \<open>error\<close>; with a listener for
  \<open>error\<close> the reconnection path is taken, without one the emission raises and
  \<^verbatim>\<open>connect()\<close> ends there.
\<close>

theorem connect_noop_when_open:
  "(ws_open w \<longrightarrow>
      connect url_ok w = Returns w \<and> and_then (connect url_ok w) (connect url_ok) = Returns w)
   \<and> (\<not> ws_open w \<and> url_ok (url w) \<longrightarrow>
        connect url_ok w =
          Returns (w\<lparr>sockets := sockets w @
                 [\<lparr> sock_url = url w, readyState = CONNECTING, onopen = True, onclose = True,
                    onerror = True, onmessage = True, sent = [] \<rparr>],
            ws := Some (length (sockets w))\<rparr>))
   \<and> (\<not> ws_open w \<and> \<not> url_ok (url w) \<longrightarrow>
        connect url_ok w =
          (if listeners w ''error'' = 0
           then Throws (Unhandled [Thrown]) (w\<lparr>emitted := emitted w @ [(''error'', [Thrown])]\<rparr>)
           else attemptReconnect (w\<lparr>emitted := emitted w @ [(''error'', [Thrown])]\<rparr>)))"
  by (simp add: connect_def setupEventListeners_def new_WebSocket_def emit_def)

theorem connect_noop_when_open_witness:
  "ws_open example_open
   \<and> and_then (connect any_url example_open) (connect any_url) = Returns example_open
   \<and> length (sockets (state_of (and_then (connect any_url example_open) (connect any_url)))) = 1
   \<and> \<not> ws_open example_fresh \<and> any_url (url example_fresh)
   \<and> map readyState (sockets (state_of (connect any_url example_fresh))) = [CONNECTING]
   \<and> ws (state_of (connect any_url example_fresh)) = Some 0
   \<and> \<not> no_url (url example_fresh)
   \<and> connect no_url example_fresh
       = Throws (Unhandled [Thrown]) (example_fresh\<lparr>emitted := [(''error'', [Thrown])]\<rparr>)
   \<and> \<not> ws_open example_fresh_listening \<and> \<not> no_url (url example_fresh_listening)
   \<and> connect no_url example_fresh_listening
       = Returns (example_fresh_listening\<lparr>emitted := [(''error'', [Thrown])], timers := [(1, 100)],
            next_timer := 2, reconnectTimeoutId := Some 1\<rparr>)"
proof -
  have o: "ws_open example_open" and f: "\<not> ws_open example_fresh \<and> any_url (url example_fresh)"
    and n: "\<not> ws_open example_fresh \<and> \<not> no_url (url example_fresh)"
    and l: "\<not> ws_open example_fresh_listening \<and> \<not> no_url (url example_fresh_listening)"
    by (simp_all add: channel_defs)
  from o connect_noop_when_open [of example_open any_url]
  have 1: "and_then (connect any_url example_open) (connect any_url) = Returns example_open" by simp
  from f connect_noop_when_open [of example_fresh any_url]
  have 2: "connect any_url example_fresh =
      Returns (example_fresh\<lparr>sockets := sockets example_fresh @
                 [\<lparr> sock_url = url example_fresh, readyState = CONNECTING, onopen = True,
                    onclose = True, onerror = True, onmessage = True, sent = [] \<rparr>],
            ws := Some (length (sockets example_fresh))\<rparr>)" by simp
  from n connect_noop_when_open [of example_fresh no_url]
  have 3: "connect no_url example_fresh =
      (if listeners example_fresh ''error'' = 0
       then Throws (Unhandled [Thrown])
              (example_fresh\<lparr>emitted := emitted example_fresh @ [(''error'', [Thrown])]\<rparr>)
       else attemptReconnect (example_fresh\<lparr>emitted := emitted example_fresh @ [(''error'', [Thrown])]\<rparr>))"
    by simp
  from l connect_noop_when_open [of example_fresh_listening no_url]
  have 4: "connect no_url example_fresh_listening =
      (if listeners example_fresh_listening ''error'' = 0
       then Throws (Unhandled [Thrown])
              (example_fresh_listening\<lparr>emitted := emitted example_fresh_listening @ [(''error'', [Thrown])]\<rparr>)
       else attemptReconnect
              (example_fresh_listening\<lparr>emitted := emitted example_fresh_listening @ [(''error'', [Thrown])]\<rparr>))"
    by simp
  have 5: "sockets example_fresh = []" by (simp add: channel_defs)
  show ?thesis
    using o f n l unfolding 1 2 3 4 by (simp add: 5) (simp add: channel_defs)
qed

subsection \<open>\<^verbatim>\<open>send(type, payload)\<close>\<close>




subsection \<open>Invariants of the event loop\<close>













lemma emit_other:
  "n \<noteq> ''error'' \<Longrightarrow> emit n a w = Returns (w\<lparr>emitted := emitted w @ [(n, a)]\<rparr>)"
  by (simp add: emit_def)












subsection \<open>The reconnection policy\<close>











subsection \<open>\<^verbatim>\<open>disconnect()\<close>\<close>

text \<open>What \<^verbatim>\<open>disconnect()\<close> does before it returns.\<close>

lemma cancel_retry_fields:
  "ws (cancel_retry w) = ws w" "emitted (cancel_retry w) = emitted w"
  "reconnectTimeoutId (cancel_retry w) = reconnectTimeoutId w" "sockets (cancel_retry w) = sockets w"
  by (simp_all add: cancel_retry_def clearTimeout_def split: option.split)

lemma cancel_retry_timers:
  "timers (cancel_retry w) =
     (case reconnectTimeoutId w of
        None \<Rightarrow> timers w
      | Some t \<Rightarrow> if t \<noteq> 0 then filter (\<lambda>p. fst p \<noteq> t) (timers w) else timers w)"
  by (simp add: cancel_retry_def clearTimeout_def split: option.split)

lemma release_socket_fields:
  "ws (release_socket w) = None" "emitted (release_socket w) = emitted w"
  "reconnectTimeoutId (release_socket w) = reconnectTimeoutId w"
  "timers (release_socket w) = timers w" "next_timer (release_socket w) = next_timer w"
  by (simp_all add: release_socket_def socket_close_def split: option.split)

lemma release_socket_twice: "release_socket (release_socket w) = release_socket w"
  by (simp add: release_socket_def [of "release_socket w"] release_socket_fields)

lemma cancel_retry_noop: "timers (cancel_retry w) = timers w \<Longrightarrow> cancel_retry w = w"
  by (cases "reconnectTimeoutId w") (simp_all add: cancel_retry_def clearTimeout_def)

lemma cancel_retry_after_disconnect:
  "cancel_retry (release_socket (cancel_retry w)) = release_socket (cancel_retry w)"
proof (rule cancel_retry_noop)
  show "timers (cancel_retry (release_socket (cancel_retry w))) = timers (release_socket (cancel_retry w))"
    by (simp add: cancel_retry_timers [of "release_socket (cancel_retry w)"]
          release_socket_fields cancel_retry_fields)
       (simp add: cancel_retry_timers release_socket_fields split: option.split)
qed

lemma disconnect_synchronous:
  "ws (disconnect w) = None
   \<and> emitted (disconnect w) = emitted w
   \<and> set (timers (disconnect w)) \<subseteq> set (timers w)
   \<and> (reconnectTimeoutId w = Some t \<and> t \<noteq> 0 \<longrightarrow> t \<notin> fst ` set (timers (disconnect w)))
   \<and> disconnect (disconnect w) = disconnect w"
proof -
  have "disconnect (disconnect w) = disconnect w"
    by (simp add: disconnect_def cancel_retry_after_disconnect release_socket_twice)
  moreover have "set (timers (disconnect w)) \<subseteq> set (timers w)"
    by (auto simp: disconnect_def release_socket_fields cancel_retry_timers split: option.split)
  moreover have "reconnectTimeoutId w = Some t \<and> t \<noteq> 0 \<longrightarrow> t \<notin> fst ` set (timers (disconnect w))"
    by (auto simp: disconnect_def release_socket_fields cancel_retry_timers)
  ultimately show ?thesis
    by (simp add: disconnect_def release_socket_fields cancel_retry_fields)
qed

text \<open>
  C1, evaluated.  A connected Channel is disconnected explicitly.  \<^verbatim>\<open>disconnect()\<close>
  leaves the \<^verbatim>\<open>onclose\<close> callback on the socket it closes, so when the browser delivers
  the close event of that socket the callback schedules a retry (timer 1), and when the
  timer fires a new socket is opened and becomes the owned one: the Channel has
  reconnected on its own after an explicit \<^verbatim>\<open>disconnect()\<close>.
\<close>

theorem disconnect_close_event_schedules_retry:
  "map_option timers (run any_url [Connect, SockOpen 0, Disconnect] example_fresh) = Some []
   \<and> map_option ws (run any_url [Connect, SockOpen 0, Disconnect] example_fresh) = Some None
   \<and> map_option timers (run any_url [Connect, SockOpen 0, Disconnect, SockClose 0] example_fresh)
       = Some [(1, 100)]
   \<and> map_option ws
        (run any_url [Connect, SockOpen 0, Disconnect, SockClose 0, TimerFire 1, SockOpen 1] example_fresh)
       = Some (Some 1)
   \<and> map_option ws_open
        (run any_url [Connect, SockOpen 0, Disconnect, SockClose 0, TimerFire 1, SockOpen 1] example_fresh)
       = Some True"
  by (simp add: channel_defs)

text \<open>
  A second way in which a timer survives \<^verbatim>\<open>disconnect()\<close>: two sockets were opened by
  two calls of \<^verbatim>\<open>connect()\<close> during the handshake, both closed, and the second timer
  replaced the reference to the first.
\<close>

lemma disconnect_leaves_unreferenced_timer:
  "map_option timers (run any_url [Connect, Connect, SockClose 0, SockClose 1, Disconnect] example_fresh)
     = Some [(1, 100)]
   \<and> map_option reconnectTimeoutId
        (run any_url [Connect, Connect, SockClose 0, SockClose 1, Disconnect] example_fresh)
     = Some (Some 2)"
  by (simp add: channel_defs)

subsection \<open>At most one socket or timer outstanding\<close>




subsection \<open>Inbound frames\<close>














subsection \<open>Subscriber Registry\<close>

lemma deliver_invoked: "fst (deliver body hs r) = hs"
  by (induction hs arbitrary: r) (simp_all add: case_prod_unfold)

text \<open>
  C8.  An emission invokes exactly the handlers registered for the event when it
  starts, in registration order, whatever calls of \<^verbatim>\<open>on\<close> and \<^verbatim>\<open>off\<close> the handlers
  make while it runs; \<^verbatim>\<open>on\<close> registers at the end of the list; a handler removed before
  the emission is not invoked; a handler that is not registered when the emission
  starts is not invoked by it, also when a running handler registers it.
\<close>

theorem registry_snapshot:
  "fst (emission body ev r) = r ev
   \<and> on ev h r ev = r ev @ [h]
   \<and> h \<notin> set (fst (emission body ev (off ev h r)))
   \<and> (h \<notin> set (r ev) \<longrightarrow> h \<notin> set (fst (emission body ev r)))"
  by (simp add: emission_def deliver_invoked on_def off_def)

theorem registry_snapshot_witness:
  "example_registry ''prUpdate'' = [1, 3]
   \<and> fst (emission example_body ''prUpdate'' example_registry) = [1, 3]
   \<and> snd (emission example_body ''prUpdate'' example_registry) ''prUpdate'' = [1, 2]
   \<and> 2 \<notin> set (example_registry ''prUpdate'')
   \<and> 2 \<notin> set (fst (emission example_body ''prUpdate'' example_registry))"
proof -
  have r: "example_registry ''prUpdate'' = [1, 3]"
    by (simp add: example_registry_def no_handlers_def on_def off_def)
  have s: "snd (emission example_body ''prUpdate'' example_registry) ''prUpdate'' = [1, 2]"
    by (simp add: emission_def r example_body_def on_def off_def)
  from registry_snapshot [of example_body "''prUpdate''" example_registry 2] r s
  show ?thesis by simp
qed

subsection \<open>Round trip of the Frame Codec\<close>























text \<open>The lexer reads the text of a value as the tokens of that value.\<close>

lemma map_option_app_Nil: "map_option ((@) []) r = r"
  by (cases r) simp_all

lemma lexes_Nil: "lexes [] []"
  by (simp add: lexes_def map_option_app_Nil)






















text \<open>
  The hypothesis is needed: a payload that is \<^verbatim>\<open>undefined\<close> is dropped by the
  serialiser, and the decoded object has no \<open>payload\<close> property; this is the payload
  property \<open>lineNumber\<close> of \<^verbatim>\<open>sendComment\<close> when the line number is not given.
\<close>

lemma undefined_payload_is_dropped:
  "map_option JSON_parse (JSON_stringify (envelope ''ping'' Undefined))
     = Some (Inr (Obj [(''type'', Str ''ping'')]))"
  by code_simp

end
